theory Spec2Isabelle
  imports Complex_Main "HOL-Library.Log_Nat"
begin

section \<open>Python numbers\<close>

subsection \<open>Binary64 floats\<close>

text \<open>
  A Python \<open>float\<close> is an IEEE-754 binary64 number. A finite float is modelled by the
  rational number it denotes, and every float operation is the exact operation followed
  by \<open>fl\<close>, rounding to the nearest float with 53 significant bits, ties to the even
  significand (subnormal spacing below \<open>2^-1022\<close>). Infinities and NaN are not
  represented: the quantities the script computes from dates that \<open>datetime\<close> can hold
  and from draws in the stated ranges stay far inside the finite range.
\<close>

definition pow2 :: "int \<Rightarrow> rat" where
  "pow2 e = (if 0 \<le> e then 2 ^ nat e else 1 / 2 ^ nat (- e))"

text \<open>\<open>ilog2 x\<close> is the binade of a positive \<open>x\<close>: \<open>2^e \<le> x < 2^(e+1)\<close>.\<close>

definition ilog2 :: "rat \<Rightarrow> int" where
  "ilog2 x = (let (p, q) = quotient_of x; e0 = bitlen p - bitlen q
              in if pow2 e0 \<le> x then e0 else e0 - 1)"

definition round_half_even :: "rat \<Rightarrow> int" where
  "round_half_even m =
     (let r = \<lfloor>m\<rfloor>; d = m - of_int r
      in if d < 1 / 2 then r else if 1 / 2 < d then r + 1 else if even r then r else r + 1)"

definition fl :: "rat \<Rightarrow> rat" where
  "fl x = (if x = 0 then 0
           else let e = max (ilog2 \<bar>x\<bar>) (- 1022); q = pow2 (e - 52)
                in of_int (round_half_even (x / q)) * q)"

text \<open>\<open>a + b\<close> and \<open>a * b\<close> on floats.\<close>

definition fadd :: "rat \<Rightarrow> rat \<Rightarrow> rat" where
  "fadd a b = fl (a + b)"

definition fmul :: "rat \<Rightarrow> rat \<Rightarrow> rat" where
  "fmul a b = fl (a * b)"

text \<open>\<open>float(n)\<close>, the conversion Python applies to an \<open>int\<close> operand of a mixed operation.\<close>

definition float_of_int :: "int \<Rightarrow> rat" where
  "float_of_int n = fl (of_int n)"

text \<open>
  \<open>a / b\<close> on two \<open>int\<close>s is the correctly rounded quotient. The script divides by the
  literals 7, 10, 20 and 100 only, so \<open>ZeroDivisionError\<close> has no branch here.
\<close>

definition truediv :: "int \<Rightarrow> int \<Rightarrow> rat" where
  "truediv a b = fl (of_int a / of_int b)"

text \<open>\<open>int(x)\<close> on a float truncates toward zero.\<close>

definition py_int :: "rat \<Rightarrow> int" where
  "py_int x = (if 0 \<le> x then \<lfloor>x\<rfloor> else \<lceil>x\<rceil>)"

subsection \<open>Naive datetimes\<close>

text \<open>
  The wall-clock fields of a \<open>datetime\<close> without time zone, and the library's proleptic
  Gregorian day number (\<open>toordinal\<close>), subtraction and \<open>timedelta\<close> normalisation.
\<close>

record datetime =
  dt_year :: int
  dt_month :: int
  dt_day :: int
  dt_hour :: int
  dt_minute :: int
  dt_second :: int
  dt_microsecond :: int

record timedelta =
  td_days :: int
  td_seconds :: int
  td_microseconds :: int

definition is_leap :: "int \<Rightarrow> bool" where
  "is_leap year \<longleftrightarrow> year mod 4 = 0 \<and> (year mod 100 \<noteq> 0 \<or> year mod 400 = 0)"

definition days_before_year :: "int \<Rightarrow> int" where
  "days_before_year year =
     (let y = year - 1 in y * 365 + y div 4 - y div 100 + y div 400)"

definition days_before_month :: "int \<Rightarrow> int \<Rightarrow> int" where
  "days_before_month year month =
     [0, 31, 59, 90, 120, 151, 181, 212, 243, 273, 304, 334] ! nat (month - 1)
       + (if 2 < month \<and> is_leap year then 1 else 0)"

definition toordinal :: "datetime \<Rightarrow> int" where
  "toordinal d = days_before_year (dt_year d) + days_before_month (dt_year d) (dt_month d) + dt_day d"

text \<open>\<open>timedelta(days, seconds, microseconds)\<close> on integers: carry with floor division.\<close>

definition mk_timedelta :: "int \<Rightarrow> int \<Rightarrow> int \<Rightarrow> timedelta" where
  "mk_timedelta d s us =
     (let s1 = s + us div 1000000;
          us1 = us mod 1000000;
          d1 = d + s1 div 86400;
          s2 = s1 mod 86400
      in \<lparr>td_days = d1, td_seconds = s2, td_microseconds = us1\<rparr>)"

definition seconds_of_day :: "datetime \<Rightarrow> int" where
  "seconds_of_day d = dt_second d + dt_minute d * 60 + dt_hour d * 3600"

definition datetime_sub :: "datetime \<Rightarrow> datetime \<Rightarrow> timedelta" where
  "datetime_sub a b =
     mk_timedelta (toordinal a - toordinal b) (seconds_of_day a - seconds_of_day b)
       (dt_microsecond a - dt_microsecond b)"

section \<open>The data the script loads\<close>

datatype py_error = KeyError | StopIteration | ValueError | ZeroDivisionError

text \<open>
  One record per JSON object, with the fields the script reads or writes. A field read
  with \<open>.get\<close> may be absent (\<open>None\<close>); so may a derived field before the run.
  \<open>t_createdAt\<close> holds the fields of
  \<open>datetime.fromisoformat(s.replace('Z', '+00:00')).replace(tzinfo=None)\<close>.
\<close>

record thread =
  t_id :: string
  t_courseId :: string
  t_status :: string
  t_createdAt :: datetime
  t_hasAIAnswer :: "bool option"
  t_views :: "int option"

record post =
  p_id :: string
  p_threadId :: string
  p_authorId :: string
  p_endorsed :: "bool option"

record user =
  u_id :: string
  u_role :: string

record course =
  c_id :: string
  c_enrollmentCount :: int

record citation =
  relevance :: int

record ai_answer =
  a_id :: string
  a_threadId :: string
  confidenceScore :: int
  citations :: "citation list"
  studentEndorsements :: "int option"
  instructorEndorsements :: "int option"
  instructorEndorsed :: "bool option"
  totalEndorsements :: "int option"

text \<open>The five files under \<open>mocks/\<close>, as parsed.\<close>

record files =
  f_threads :: "thread list"
  f_posts :: "post list"
  f_ai_answers :: "ai_answer list"
  f_courses :: "course list"
  f_users :: "user list"

section \<open>The random module\<close>

text \<open>
  The process-wide generator is threaded through the calls as a state \<open>'g\<close>. The
  module's functions are a parameter of the model.
\<close>

record 'g random_module =
  random_seed :: "int \<Rightarrow> 'g \<Rightarrow> 'g"
  random_randint :: "int \<Rightarrow> int \<Rightarrow> 'g \<Rightarrow> int \<times> 'g"
  random_uniform :: "rat \<Rightarrow> rat \<Rightarrow> 'g \<Rightarrow> rat \<times> 'g"
  random_random :: "'g \<Rightarrow> rat \<times> 'g"

text \<open>\<open>randint(a, b)\<close> returns an integer \<open>N\<close> with \<open>a \<le> N \<le> b\<close>.\<close>

definition randint_in_range :: "'g random_module \<Rightarrow> bool" where
  "randint_in_range R \<longleftrightarrow>
     (\<forall>a b g. a \<le> b \<longrightarrow> a \<le> fst (random_randint R a b g) \<and> fst (random_randint R a b g) \<le> b)"

text \<open>\<open>seed(n)\<close> sets the generator to a state that depends on \<open>n\<close> alone.\<close>

definition seed_resets :: "'g random_module \<Rightarrow> bool" where
  "seed_resets R \<longleftrightarrow> (\<forall>n g g'. random_seed R n g = random_seed R n g')"

section \<open>The script\<close>

subsection \<open>Lookups\<close>

record lookups =
  courses_by_id :: "string \<rightharpoonup> course"
  posts_by_thread :: "string \<rightharpoonup> post list"
  ai_by_thread :: "string \<rightharpoonup> ai_answer"
  users_by_id :: "string \<rightharpoonup> user"

definition group_post :: "post \<Rightarrow> (string \<rightharpoonup> post list) \<Rightarrow> (string \<rightharpoonup> post list)" where
  "group_post p m =
     (let thread_id = p_threadId p;
          m1 = (if m thread_id = None then m(thread_id \<mapsto> []) else m)
      in m1(thread_id \<mapsto> (case m1 thread_id of Some ps \<Rightarrow> ps @ [p] | None \<Rightarrow> [p])))"

definition create_lookups :: "files \<Rightarrow> lookups" where
  "create_lookups fs =
     \<lparr>courses_by_id = fold (\<lambda>c m. m(c_id c \<mapsto> c)) (f_courses fs) Map.empty,
      posts_by_thread = fold group_post (f_posts fs) Map.empty,
      ai_by_thread = fold (\<lambda>a m. m(a_threadId a \<mapsto> a)) (f_ai_answers fs) Map.empty,
      users_by_id = fold (\<lambda>u m. m(u_id u \<mapsto> u)) (f_users fs) Map.empty\<rparr>"

subsection \<open>Functions\<close>

definition NOW :: datetime where
  "NOW = \<lparr>dt_year = 2025, dt_month = 10, dt_day = 7, dt_hour = 12, dt_minute = 0,
          dt_second = 0, dt_microsecond = 0\<rparr>"

definition get_days_since_creation :: "datetime \<Rightarrow> int" where
  "get_days_since_creation created = td_days (datetime_sub NOW created)"

definition get_course_size_factor :: "int \<Rightarrow> rat" where
  "get_course_size_factor enrollment =
     (if enrollment < 35 then fl (8 / 10)
      else if enrollment \<le> 50 then fl 1
      else fl (13 / 10))"

definition get_base_views :: "'g random_module \<Rightarrow> string \<Rightarrow> 'g \<Rightarrow> int \<times> 'g" where
  "get_base_views R status g =
     (if status = ''resolved'' then random_randint R 20 35 g
      else if status = ''answered'' then random_randint R 15 25 g
      else random_randint R 8 15 g)"

text \<open>The \<open>for\<close> loop over the replies that stops at the first instructor (\<open>break\<close>).\<close>

fun instructor_reply_bonus :: "(string \<rightharpoonup> user) \<Rightarrow> post list \<Rightarrow> rat \<Rightarrow> rat" where
  "instructor_reply_bonus us [] score = score"
| "instructor_reply_bonus us (p # ps) score =
     (case us (p_authorId p) of
        Some author \<Rightarrow>
          if u_role author = ''instructor'' then fadd score (fl (2 / 10))
          else instructor_reply_bonus us ps score
      | None \<Rightarrow> instructor_reply_bonus us ps score)"

definition calculate_quality_factor ::
    "lookups \<Rightarrow> thread \<Rightarrow> post list \<Rightarrow> ai_answer option \<Rightarrow> rat" where
  "calculate_quality_factor env thread thread_posts ai =
     (let score0 = fl 0;
          score1 = (if t_hasAIAnswer thread = Some True then fadd score0 (fl (3 / 10)) else score0);
          score2 = (if 0 < length thread_posts then fadd score1 (fl (2 / 10)) else score1);
          score3 = (if list_ex (\<lambda>p. p_endorsed p = Some True) thread_posts
                    then fadd score2 (fl (3 / 10)) else score2);
          score4 = instructor_reply_bonus (users_by_id env) thread_posts score3;
          score5 = (if t_status thread = ''resolved'' then fadd score4 (fl (25 / 100)) else score4)
      in fadd (fl 1) score5)"

definition calculate_thread_views ::
    "'g random_module \<Rightarrow> lookups \<Rightarrow> thread \<Rightarrow> 'g \<Rightarrow> py_error + int \<times> 'g" where
  "calculate_thread_views R env thread g =
     (let days = get_days_since_creation (t_createdAt thread)
      in case courses_by_id env (t_courseId thread) of
           None \<Rightarrow> Inl KeyError
         | Some course \<Rightarrow>
             let thread_posts = (case posts_by_thread env (t_id thread) of
                                   Some ps \<Rightarrow> ps | None \<Rightarrow> []);
                 ai = ai_by_thread env (t_id thread);
                 (base_views, g1) = get_base_views R (t_status thread) g;
                 age_factor = min (fadd (float_of_int 1) (fmul (truediv days 7) (fl (5 / 10))))
                                  (fl (25 / 10));
                 quality_factor = calculate_quality_factor env thread thread_posts ai;
                 course_size_factor = get_course_size_factor (c_enrollmentCount course);
                 calculated = py_int (fmul (fmul (fmul (float_of_int base_views) age_factor)
                                                  quality_factor) course_size_factor)
             in Inr (min calculated 200, g1))"

definition calculate_ai_student_endorsements ::
    "'g random_module \<Rightarrow> ai_answer \<Rightarrow> int \<Rightarrow> 'g \<Rightarrow> int \<times> 'g" where
  "calculate_ai_student_endorsements R a thread_views g =
     (let confidence = confidenceScore a;
          (base, g1) =
            (if 85 \<le> confidence then
               let (u, g1) = random_uniform R (fl (3 / 10)) (fl (6 / 10)) g
               in (fmul (fmul (truediv confidence 100) (truediv thread_views 10)) u, g1)
             else if 60 \<le> confidence then
               let (u, g1) = random_uniform R (fl (2 / 10)) (fl (4 / 10)) g
               in (fmul (fmul (truediv confidence 100) (truediv thread_views 20)) u, g1)
             else random_uniform R 0 2 g)
      in (max 0 (py_int base), g1))"

definition should_instructor_endorse ::
    "'g random_module \<Rightarrow> ai_answer \<Rightarrow> int \<Rightarrow> int \<Rightarrow> 'g \<Rightarrow> bool \<times> 'g" where
  "should_instructor_endorse R a thread_views days_old g =
     (if confidenceScore a < 80 then (False, g)
      else let quality_citations = filter (\<lambda>c. 80 \<le> relevance c) (citations a)
           in if length quality_citations < 2 then (False, g)
              else if days_old < 1 then (False, g)
              else if thread_views < 20 then (False, g)
              else let (r, g1) = random_random R g in (r < fl (4 / 10), g1))"

subsection \<open>The two loops and the run\<close>

text \<open>\<open>for thread in threads: thread['views'] = calculate_thread_views(thread)\<close>\<close>

fun apply_thread_metrics ::
    "'g random_module \<Rightarrow> lookups \<Rightarrow> thread list \<Rightarrow> 'g \<Rightarrow> py_error + thread list \<times> 'g" where
  "apply_thread_metrics R env [] g = Inr ([], g)"
| "apply_thread_metrics R env (t # ts) g =
     (case calculate_thread_views R env t g of
        Inl e \<Rightarrow> Inl e
      | Inr (v, g1) \<Rightarrow>
          (case apply_thread_metrics R env ts g1 of
             Inl e \<Rightarrow> Inl e
           | Inr (ts', g2) \<Rightarrow> Inr (t\<lparr>t_views := Some v\<rparr> # ts', g2)))"

text \<open>
  The body of the loop over the AI answers. \<open>next(...)\<close> on a generator with no match
  raises \<open>StopIteration\<close>; \<open>thread['views']\<close> on a thread without the key raises
  \<open>KeyError\<close>.
\<close>

definition apply_ai_answer_metrics ::
    "'g random_module \<Rightarrow> thread list \<Rightarrow> ai_answer \<Rightarrow> 'g \<Rightarrow> py_error + ai_answer \<times> 'g" where
  "apply_ai_answer_metrics R threads a g =
     (case find (\<lambda>t. t_id t = a_threadId a) threads of
        None \<Rightarrow> Inl StopIteration
      | Some thread \<Rightarrow>
          let days_old = get_days_since_creation (t_createdAt thread)
          in (case t_views thread of
               None \<Rightarrow> Inl KeyError
             | Some views \<Rightarrow>
                 let (student_endorsements, g1) = calculate_ai_student_endorsements R a views g;
                     (endorse, g2) = should_instructor_endorse R a views days_old g1;
                     instructor_endorsements = (if endorse then 1 else 0);
                     total = student_endorsements + instructor_endorsements;
                     total1 = (if 0 < instructor_endorsements
                               then total + py_int (fmul (float_of_int student_endorsements)
                                                         (fl (3 / 10)))
                               else total)
                 in Inr (a\<lparr>studentEndorsements := Some student_endorsements,
                            instructorEndorsements := Some instructor_endorsements,
                            instructorEndorsed := Some (0 < instructor_endorsements),
                            totalEndorsements := Some total1\<rparr>, g2)))"

fun apply_ai_metrics ::
    "'g random_module \<Rightarrow> thread list \<Rightarrow> ai_answer list \<Rightarrow> 'g \<Rightarrow> py_error + ai_answer list \<times> 'g" where
  "apply_ai_metrics R threads [] g = Inr ([], g)"
| "apply_ai_metrics R threads (a # as) g =
     (case apply_ai_answer_metrics R threads a g of
        Inl e \<Rightarrow> Inl e
      | Inr (a', g1) \<Rightarrow>
          (case apply_ai_metrics R threads as g1 of
             Inl e \<Rightarrow> Inl e
           | Inr (as', g2) \<Rightarrow> Inr (a' # as', g2)))"

text \<open>
  The summary printed after the files are saved: \<open>min\<close> of no threads raises
  \<open>ValueError\<close>, the percentage over no posts raises \<open>ZeroDivisionError\<close>.
\<close>

definition print_summary :: "thread list \<Rightarrow> post list \<Rightarrow> py_error option" where
  "print_summary threads posts =
     (if threads = [] then Some ValueError
      else if posts = [] then Some ZeroDivisionError
      else None)"

text \<open>
  The whole module, top to bottom, from the files on disk and the generator state the
  process starts with to the exception that ended the run (if any) and the files on disk
  afterwards.
\<close>

definition script :: "'g random_module \<Rightarrow> files \<Rightarrow> 'g \<Rightarrow> py_error option \<times> files" where
  "script R fs g0 =
     (let g = random_seed R 42 g0;
          threads = f_threads fs;
          posts = f_posts fs;
          ai_answers = f_ai_answers fs;
          env = create_lookups fs
      in case apply_thread_metrics R env threads g of
           Inl e \<Rightarrow> (Some e, fs)
         | Inr (threads', g1) \<Rightarrow>
             (case apply_ai_metrics R threads' ai_answers g1 of
                Inl e \<Rightarrow> (Some e, fs)
              | Inr (ai_answers', g2) \<Rightarrow>
                  (print_summary threads' posts,
                   fs\<lparr>f_threads := threads', f_posts := posts, f_ai_answers := ai_answers'\<rparr>)))"

section \<open>The specification's formulas\<close>

text \<open>
  The formulas as the specification words them, for comparison with the functions above.
  Elapsed time is counted in microseconds; "whole days, truncated" rounds toward zero.
\<close>

definition micros_since :: "datetime \<Rightarrow> int" where
  "micros_since created =
     ((toordinal NOW - toordinal created) * 86400
        + (seconds_of_day NOW - seconds_of_day created)) * 1000000
       + (dt_microsecond NOW - dt_microsecond created)"

definition whole_days_truncated :: "int \<Rightarrow> int" where
  "whole_days_truncated us =
     (if 0 \<le> us then us div 86400000000 else - ((- us) div 86400000000))"

text \<open>The five quality signals of a thread and the exact sum of the bonuses.\<close>

definition any_endorsed_reply :: "post list \<Rightarrow> bool" where
  "any_endorsed_reply thread_posts = list_ex (\<lambda>p. p_endorsed p = Some True) thread_posts"

definition any_instructor_reply :: "(string \<rightharpoonup> user) \<Rightarrow> post list \<Rightarrow> bool" where
  "any_instructor_reply us thread_posts =
     list_ex (\<lambda>p. case us (p_authorId p) of
                      Some author \<Rightarrow> u_role author = ''instructor''
                    | None \<Rightarrow> False) thread_posts"

definition spec_quality_factor :: "bool \<Rightarrow> bool \<Rightarrow> bool \<Rightarrow> bool \<Rightarrow> bool \<Rightarrow> rat" where
  "spec_quality_factor has_ai has_reply endorsed instructor resolved =
     1 + ((if has_ai then 3 / 10 else 0) + (if has_reply then 2 / 10 else 0)
          + (if endorsed then 3 / 10 else 0) + (if instructor then 2 / 10 else 0)
          + (if resolved then 25 / 100 else 0))"

definition spec_age_factor :: "int \<Rightarrow> rat" where
  "spec_age_factor days = min (1 + (of_int days / 7) * (5 / 10)) (25 / 10)"

definition spec_course_size_factor :: "int \<Rightarrow> rat" where
  "spec_course_size_factor enrollment =
     (if enrollment < 35 then 8 / 10 else if enrollment \<le> 50 then 1 else 13 / 10)"

text \<open>\<open>floor(baseViews * ageFactor * qualityFactor * courseSizeFactor)\<close>, capped at 200,
  in exact arithmetic.\<close>

definition spec_thread_views :: "int \<Rightarrow> int \<Rightarrow> rat \<Rightarrow> int \<Rightarrow> int" where
  "spec_thread_views base_views days quality_factor enrollment =
     min \<lfloor>of_int base_views * spec_age_factor days * quality_factor
            * spec_course_size_factor enrollment\<rfloor> 200"

text \<open>The same formula with every operation in binary64, in the order the source
  multiplies, and its result rounded down.\<close>

definition binary64_age_factor :: "int \<Rightarrow> rat" where
  "binary64_age_factor days =
     min (fadd (float_of_int 1) (fmul (truediv days 7) (fl (5 / 10)))) (fl (25 / 10))"

definition binary64_views_product :: "int \<Rightarrow> int \<Rightarrow> rat \<Rightarrow> int \<Rightarrow> rat" where
  "binary64_views_product base_views days quality_factor enrollment =
     fmul (fmul (fmul (float_of_int base_views) (binary64_age_factor days)) quality_factor)
          (fl (spec_course_size_factor enrollment))"

definition binary64_thread_views :: "int \<Rightarrow> int \<Rightarrow> rat \<Rightarrow> int \<Rightarrow> int" where
  "binary64_thread_views base_views days quality_factor enrollment =
     min \<lfloor>binary64_views_product base_views days quality_factor enrollment\<rfloor> 200"

section \<open>Concrete inputs\<close>

text \<open>
  A small generator with the interface of the random module, to run the script on
  concrete files: the state is a counter, \<open>seed\<close> sets it from the seed alone, and each
  draw is read off the counter and advances it.
\<close>

definition counter_random :: "nat random_module" where
  "counter_random =
     \<lparr>random_seed = (\<lambda>n g. nat \<bar>n\<bar> mod 8),
      random_randint = (\<lambda>a b g. (a + int g mod (b - a + 1), Suc g)),
      random_uniform = (\<lambda>a b g. (fadd a (fmul (fl (b - a)) (of_nat (g mod 8) / 8)), Suc g)),
      random_random = (\<lambda>g. (of_nat (g mod 8) / 8, Suc g))\<rparr>"

definition mk_datetime :: "int \<Rightarrow> int \<Rightarrow> int \<Rightarrow> int \<Rightarrow> datetime" where
  "mk_datetime y m d h =
     \<lparr>dt_year = y, dt_month = m, dt_day = d, dt_hour = h, dt_minute = 0, dt_second = 0,
      dt_microsecond = 0\<rparr>"

definition demo_users :: "user list" where
  "demo_users = [\<lparr>u_id = ''u1'', u_role = ''instructor''\<rparr>, \<lparr>u_id = ''u2'', u_role = ''student''\<rparr>]"

definition demo_courses :: "course list" where
  "demo_courses = [\<lparr>c_id = ''c60'', c_enrollmentCount = 60\<rparr>,
                   \<lparr>c_id = ''c40'', c_enrollmentCount = 40\<rparr>,
                   \<lparr>c_id = ''c20'', c_enrollmentCount = 20\<rparr>]"

text \<open>A resolved thread, 14 days old, in the course of 60, with an AI answer and one
  endorsed reply by an instructor.\<close>

definition thread_resolved :: thread where
  "thread_resolved =
     \<lparr>t_id = ''t1'', t_courseId = ''c60'', t_status = ''resolved'',
      t_createdAt = mk_datetime 2025 9 23 12, t_hasAIAnswer = Some True, t_views = None\<rparr>"

text \<open>An open thread, one day old, in the course of 40, with one reply by an instructor
  that is not endorsed.\<close>

definition thread_open :: thread where
  "thread_open =
     \<lparr>t_id = ''t2'', t_courseId = ''c40'', t_status = ''open'',
      t_createdAt = mk_datetime 2025 10 6 12, t_hasAIAnswer = None, t_views = None\<rparr>"

text \<open>An open thread dated 54 days after \<open>NOW\<close>, in the course of 20, without replies.\<close>

definition thread_future :: thread where
  "thread_future =
     \<lparr>t_id = ''t3'', t_courseId = ''c20'', t_status = ''open'',
      t_createdAt = mk_datetime 2025 11 30 12, t_hasAIAnswer = None, t_views = None\<rparr>"

definition demo_posts :: "post list" where
  "demo_posts =
     [\<lparr>p_id = ''p1'', p_threadId = ''t1'', p_authorId = ''u1'', p_endorsed = Some True\<rparr>,
      \<lparr>p_id = ''p2'', p_threadId = ''t2'', p_authorId = ''u1'', p_endorsed = Some False\<rparr>]"

definition demo_ai_answer :: ai_answer where
  "demo_ai_answer =
     \<lparr>a_id = ''a1'', a_threadId = ''t1'', confidenceScore = 90,
      citations = [\<lparr>relevance = 85\<rparr>, \<lparr>relevance = 90\<rparr>, \<lparr>relevance = 40\<rparr>],
      studentEndorsements = None, instructorEndorsements = None, instructorEndorsed = None,
      totalEndorsements = None\<rparr>"

definition demo_files :: files where
  "demo_files =
     \<lparr>f_threads = [thread_resolved, thread_open], f_posts = demo_posts,
      f_ai_answers = [demo_ai_answer], f_courses = demo_courses, f_users = demo_users\<rparr>"

text \<open>The same thread after the first loop has written 146 views.\<close>

definition thread_resolved_viewed :: thread where
  "thread_resolved_viewed = thread_resolved\<lparr>t_views := Some 146\<rparr>"

text \<open>An AI answer of confidence 70 with a single citation of relevance 80 or more.\<close>

definition weak_ai_answer :: ai_answer where
  "weak_ai_answer =
     \<lparr>a_id = ''a2'', a_threadId = ''t1'', confidenceScore = 70,
      citations = [\<lparr>relevance = 85\<rparr>, \<lparr>relevance = 60\<rparr>],
      studentEndorsements = None, instructorEndorsements = None, instructorEndorsed = None,
      totalEndorsements = None\<rparr>"

text \<open>Files with one dangling reference each: a thread whose course is missing, an AI
  answer whose thread is missing, a post whose thread is missing.\<close>

definition thread_no_course :: thread where
  "thread_no_course = thread_open\<lparr>t_id := ''t4'', t_courseId := ''c99''\<rparr>"

definition ai_no_thread :: ai_answer where
  "ai_no_thread = demo_ai_answer\<lparr>a_id := ''a3'', a_threadId := ''t9''\<rparr>"

definition files_dangling_course :: files where
  "files_dangling_course = demo_files\<lparr>f_threads := [thread_resolved, thread_no_course]\<rparr>"

definition files_dangling_ai :: files where
  "files_dangling_ai = demo_files\<lparr>f_ai_answers := [demo_ai_answer, ai_no_thread]\<rparr>"

definition files_dangling_post :: files where
  "files_dangling_post = demo_files\<lparr>f_threads := [thread_open], f_ai_answers := []\<rparr>"

text \<open>The two AI answers as the second loop leaves them.\<close>

definition demo_ai_answer_written :: ai_answer where
  "demo_ai_answer_written =
     demo_ai_answer\<lparr>studentEndorsements := Some 7, instructorEndorsements := Some 1,
                      instructorEndorsed := Some True, totalEndorsements := Some 10\<rparr>"

definition weak_ai_answer_written :: ai_answer where
  "weak_ai_answer_written =
     weak_ai_answer\<lparr>studentEndorsements := Some 1, instructorEndorsements := Some 0,
                      instructorEndorsed := Some False, totalEndorsements := Some 1\<rparr>"

text \<open>Files whose only thread is the one dated after \<open>NOW\<close>.\<close>

definition files_future :: files where
  "files_future = demo_files\<lparr>f_threads := [thread_future], f_ai_answers := []\<rparr>"

section \<open>Rounding is monotone\<close>

lemma pow2_pos: "0 < pow2 e"
  by (simp add: pow2_def)

lemma pow2_add: "pow2 (a + b) = pow2 a * pow2 b"
proof -
  have "pow2 e = 2 powi e" for e
    by (simp add: pow2_def power_int_def field_simps)
  then show ?thesis by (simp add: power_int_add)
qed

lemma pow2_mono: "a \<le> b \<Longrightarrow> pow2 a \<le> pow2 b"
proof -
  have "pow2 e = 2 powi e" for e
    by (simp add: pow2_def power_int_def field_simps)
  then show "a \<le> b \<Longrightarrow> pow2 a \<le> pow2 b" by (simp add: power_int_increasing)
qed

lemma pow2_nat: "0 \<le> e \<Longrightarrow> pow2 e = 2 ^ nat e"
  by (simp add: pow2_def)

lemma round_half_even_of_int: "round_half_even (of_int k) = k"
  by (simp add: round_half_even_def)

lemma round_half_even_mono: "m \<le> n \<Longrightarrow> round_half_even m \<le> round_half_even n"
proof -
  assume mn: "m \<le> n"
  then have fl: "\<lfloor>m\<rfloor> \<le> \<lfloor>n\<rfloor>" by (rule floor_mono)
  show ?thesis
  proof (cases "\<lfloor>m\<rfloor> = \<lfloor>n\<rfloor>")
    case True
    then show ?thesis using mn
      by (auto simp: round_half_even_def Let_def)
  next
    case False
    with fl have "\<lfloor>m\<rfloor> + 1 \<le> \<lfloor>n\<rfloor>" by simp
    moreover have "round_half_even m \<le> \<lfloor>m\<rfloor> + 1"
      by (simp add: round_half_even_def Let_def)
    moreover have "\<lfloor>n\<rfloor> \<le> round_half_even n"
      by (simp add: round_half_even_def Let_def)
    ultimately show ?thesis by linarith
  qed
qed

lemma round_half_even_minus: "round_half_even (- m) = - round_half_even m"
proof (cases "m = of_int \<lfloor>m\<rfloor>")
  case True
  then obtain k where "m = of_int k" ..
  then show ?thesis
    by (metis of_int_minus round_half_even_of_int)
next
  case False
  then have c: "\<lceil>m\<rceil> = \<lfloor>m\<rfloor> + 1"
    by (metis ceiling_altdef)
  have f: "\<lfloor>- m\<rfloor> = - \<lfloor>m\<rfloor> - 1"
    using c by (simp add: ceiling_def)
  have lt: "of_int \<lfloor>m\<rfloor> < m" using False
    by (metis of_int_floor_le order_less_le)
  show ?thesis
    using lt unfolding round_half_even_def Let_def f
    by (auto simp: algebra_simps)
qed

lemma ilog2_bounds:
  assumes "0 < x"
  shows "pow2 (ilog2 x) \<le> x" and "x < pow2 (ilog2 x + 1)"
proof -
  obtain p q where pq: "quotient_of x = (p, q)" by (cases "quotient_of x")
  then have q_pos: "0 < q" by (rule quotient_of_denom_pos)
  have x: "x = of_int p / of_int q" using pq by (rule quotient_of_div)
  have p_pos: "0 < p" using assms q_pos x by (simp add: zero_less_divide_iff)
  define bp where "bp = bitlen p"
  define bq where "bq = bitlen q"
  have bp: "2 ^ nat (bp - 1) \<le> p" "p < 2 ^ nat bp" "1 \<le> bp"
    using bitlen_bounds[OF p_pos] p_pos by (auto simp: bp_def bitlen_alt_def)
  have bq: "2 ^ nat (bq - 1) \<le> q" "q < 2 ^ nat bq" "1 \<le> bq"
    using bitlen_bounds[OF q_pos] q_pos by (auto simp: bq_def bitlen_alt_def)
  have P: "pow2 e = 2 powi e" for e
    by (simp add: pow2_def power_int_def field_simps)
  have rp: "(2::rat) powi (bp - 1) \<le> of_int p" "(of_int p :: rat) < 2 powi bp"
  proof -
    have "(of_int (2 ^ nat (bp - 1)) :: rat) \<le> of_int p"
      using bp(1) by (simp only: of_int_le_iff)
    then show "(2::rat) powi (bp - 1) \<le> of_int p"
      using bp(3) by (simp add: power_int_def)
    have "(of_int p :: rat) < of_int (2 ^ nat bp)"
      using bp(2) by (simp only: of_int_less_iff)
    then show "(of_int p :: rat) < 2 powi bp"
      using bp(3) by (simp add: power_int_def)
  qed
  have rq: "(2::rat) powi (bq - 1) \<le> of_int q" "(of_int q :: rat) < 2 powi bq"
  proof -
    have "(of_int (2 ^ nat (bq - 1)) :: rat) \<le> of_int q"
      using bq(1) by (simp only: of_int_le_iff)
    then show "(2::rat) powi (bq - 1) \<le> of_int q"
      using bq(3) by (simp add: power_int_def)
    have "(of_int q :: rat) < of_int (2 ^ nat bq)"
      using bq(2) by (simp only: of_int_less_iff)
    then show "(of_int q :: rat) < 2 powi bq"
      using bq(3) by (simp add: power_int_def)
  qed
  have qpos: "(0::rat) < of_int q" using q_pos by simp
  have "(2::rat) powi (bp - 1) / 2 powi bq \<le> of_int p / of_int q"
    by (rule frac_le) (use rp rq qpos p_pos in \<open>auto simp: less_imp_le\<close>)
  moreover have "(2::rat) powi (bp - bq - 1) = 2 powi (bp - 1) / 2 powi bq"
    using power_int_diff[of "2::rat" "bp - 1" bq] by (simp add: algebra_simps)
  ultimately have lo: "pow2 (bp - bq - 1) \<le> x"
    unfolding P x by simp
  have "(of_int p :: rat) / of_int q < 2 powi bp / 2 powi (bq - 1)"
    by (rule frac_less) (use rp rq qpos p_pos in \<open>auto simp: less_imp_le\<close>)
  moreover have "(2::rat) powi (bp - bq + 1) = 2 powi bp / 2 powi (bq - 1)"
    using power_int_diff[of "2::rat" bp "bq - 1"] by (simp add: algebra_simps)
  ultimately have hi: "x < pow2 (bp - bq + 1)"
    unfolding P x by simp
  show "pow2 (ilog2 x) \<le> x"
    using lo by (auto simp: ilog2_def pq Let_def bp_def bq_def)
  show "x < pow2 (ilog2 x + 1)"
    using hi by (auto simp: ilog2_def pq Let_def bp_def bq_def)
qed


lemma pow2_powi: "pow2 e = 2 powi e"
  by (simp add: pow2_def power_int_def field_simps)

lemma pow2_less_cancel: "pow2 a < pow2 b \<Longrightarrow> a < b"
  using pow2_mono[of b a] by (cases "a < b") auto

lemma ilog2_mono:
  assumes "0 < x" "x \<le> y"
  shows "ilog2 x \<le> ilog2 y"
proof -
  have "pow2 (ilog2 x) \<le> x" using assms(1) by (rule ilog2_bounds)
  also have "x \<le> y" by fact
  also have "y < pow2 (ilog2 y + 1)" using assms by (intro ilog2_bounds) simp
  finally have "ilog2 x < ilog2 y + 1" by (rule pow2_less_cancel)
  then show ?thesis by simp
qed

lemma fl_pos_unfold:
  "0 < x \<Longrightarrow>
     fl x = of_int (round_half_even (x / pow2 (max (ilog2 x) (- 1022) - 52)))
              * pow2 (max (ilog2 x) (- 1022) - 52)"
  by (simp add: fl_def Let_def)

lemma fl_minus: "fl (- x) = - fl x"
  by (simp add: fl_def Let_def round_half_even_minus)

lemma pow2_split53: "pow2 (e + 1) = of_int (2 ^ 53) * pow2 (e - 52)"
proof -
  have "e + 1 = 53 + (e - 52)" by simp
  then have "pow2 (e + 1) = pow2 (53 + (e - 52))" by (rule arg_cong)
  also have "\<dots> = pow2 53 * pow2 (e - 52)" by (rule pow2_add)
  finally show ?thesis by (simp add: pow2_def)
qed

lemma pow2_split52: "pow2 e = of_int (2 ^ 52) * pow2 (e - 52)"
proof -
  have "e = 52 + (e - 52)" by simp
  then have "pow2 e = pow2 (52 + (e - 52))" by (rule arg_cong)
  also have "\<dots> = pow2 52 * pow2 (e - 52)" by (rule pow2_add)
  finally show ?thesis by (simp add: pow2_def)
qed

lemma fl_upper:
  assumes "0 < x"
  shows "fl x \<le> pow2 (max (ilog2 x) (- 1022) + 1)"
proof -
  define e where "e = max (ilog2 x) (- 1022)"
  define q where "q = pow2 (e - 52)"
  have q: "0 < q" by (simp add: q_def pow2_pos)
  have flx: "fl x = of_int (round_half_even (x / q)) * q"
    unfolding q_def e_def using assms by (rule fl_pos_unfold)
  have up: "pow2 (e + 1) = of_int (2 ^ 53) * q"
    unfolding q_def by (rule pow2_split53)
  have "x < pow2 (ilog2 x + 1)" using assms by (rule ilog2_bounds)
  also have "\<dots> \<le> pow2 (e + 1)" by (rule pow2_mono) (simp add: e_def)
  finally have "x < of_int (2 ^ 53) * q" by (simp only: up)
  then have "x / q \<le> of_int (2 ^ 53)" using q by (simp add: field_simps)
  then have "round_half_even (x / q) \<le> 2 ^ 53"
    using round_half_even_mono[of "x / q" "of_int (2 ^ 53)"]
    by (simp only: round_half_even_of_int)
  then have "(of_int (round_half_even (x / q)) :: rat) \<le> of_int (2 ^ 53)"
    by (simp only: of_int_le_iff)
  then have "of_int (round_half_even (x / q)) * q \<le> of_int (2 ^ 53) * q"
    using q by (simp only: mult_le_cancel_right_pos)
  then have "fl x \<le> pow2 (e + 1)" by (simp only: flx up)
  then show ?thesis by (simp only: e_def)
qed

lemma fl_lower:
  assumes "0 < x" "- 1022 \<le> ilog2 x"
  shows "pow2 (ilog2 x) \<le> fl x"
proof -
  define e where "e = ilog2 x"
  define q where "q = pow2 (e - 52)"
  have q: "0 < q" by (simp add: q_def pow2_pos)
  have m: "max (ilog2 x) (- 1022) = e" using assms(2) by (simp add: e_def)
  have flx: "fl x = of_int (round_half_even (x / q)) * q"
    unfolding q_def m[symmetric] using assms(1) by (rule fl_pos_unfold)
  have lo: "pow2 e = of_int (2 ^ 52) * q"
    unfolding q_def by (rule pow2_split52)
  have "pow2 e \<le> x" unfolding e_def using assms(1) by (rule ilog2_bounds)
  then have "of_int (2 ^ 52) * q \<le> x" by (simp only: lo)
  then have "of_int (2 ^ 52) \<le> x / q" using q by (simp add: field_simps)
  then have "2 ^ 52 \<le> round_half_even (x / q)"
    using round_half_even_mono[of "of_int (2 ^ 52)" "x / q"]
    by (simp only: round_half_even_of_int)
  then have "(of_int (2 ^ 52) :: rat) \<le> of_int (round_half_even (x / q))"
    by (simp only: of_int_le_iff)
  then have "of_int (2 ^ 52) * q \<le> of_int (round_half_even (x / q)) * q"
    using q by (simp only: mult_le_cancel_right_pos)
  then have "pow2 e \<le> fl x" by (simp only: flx lo)
  then show ?thesis by (simp only: e_def)
qed

lemma fl_mono_pos:
  assumes "0 < x" "x \<le> y"
  shows "fl x \<le> fl y"
proof -
  have y: "0 < y" using assms by simp
  define ex where "ex = max (ilog2 x) (- 1022)"
  define ey where "ey = max (ilog2 y) (- 1022)"
  have le: "ex \<le> ey" using ilog2_mono[OF assms] by (simp add: ex_def ey_def)
  show ?thesis
  proof (cases "ex = ey")
    case True
    have q: "0 < pow2 (ey - 52)" by (rule pow2_pos)
    have "x / pow2 (ey - 52) \<le> y / pow2 (ey - 52)"
      using assms(2) q by (simp add: divide_right_mono)
    then have "round_half_even (x / pow2 (ey - 52)) \<le> round_half_even (y / pow2 (ey - 52))"
      by (rule round_half_even_mono)
    then have "(of_int (round_half_even (x / pow2 (ey - 52))) :: rat)
                 \<le> of_int (round_half_even (y / pow2 (ey - 52)))"
      by (simp only: of_int_le_iff)
    then have "of_int (round_half_even (x / pow2 (ey - 52))) * pow2 (ey - 52)
                 \<le> of_int (round_half_even (y / pow2 (ey - 52))) * pow2 (ey - 52)"
      using q by (simp only: mult_le_cancel_right_pos)
    then show ?thesis
      unfolding fl_pos_unfold[OF assms(1)] fl_pos_unfold[OF y]
      unfolding ex_def[symmetric] ey_def[symmetric] True .
  next
    case False
    with le have lt: "ex < ey" by simp
    then have ily: "ilog2 y = ey" "- 1022 \<le> ilog2 y"
      by (auto simp: ex_def ey_def)
    have "fl x \<le> pow2 (ex + 1)" unfolding ex_def using assms(1) by (rule fl_upper)
    also have "\<dots> \<le> pow2 ey" using lt by (intro pow2_mono) simp
    also have "\<dots> \<le> fl y" using fl_lower[OF y ily(2)] by (simp only: ily(1))
    finally show ?thesis .
  qed
qed

lemma fl_nonneg: "0 \<le> x \<Longrightarrow> 0 \<le> fl x"
proof (cases "x = 0")
  case True
  then show ?thesis by (simp add: fl_def)
next
  case False
  assume "0 \<le> x"
  with False have x: "0 < x" by simp
  have "0 \<le> x / pow2 (max (ilog2 x) (- 1022) - 52)"
    using x pow2_pos[of "max (ilog2 x) (- 1022) - 52"] by simp
  then have "0 \<le> round_half_even (x / pow2 (max (ilog2 x) (- 1022) - 52))"
    using round_half_even_mono[of 0 "x / pow2 (max (ilog2 x) (- 1022) - 52)"]
          round_half_even_of_int[of 0] by simp
  then show ?thesis
    unfolding fl_pos_unfold[OF x]
    using pow2_pos[of "max (ilog2 x) (- 1022) - 52"] by simp
qed

lemma fl_mono: "x \<le> y \<Longrightarrow> fl x \<le> fl y"
proof -
  assume xy: "x \<le> y"
  consider "0 < x" | "x \<le> 0" "0 \<le> y" | "y < 0" by linarith
  then show ?thesis
  proof cases
    case 1
    then show ?thesis using xy by (rule fl_mono_pos)
  next
    case 2
    have "fl x \<le> 0" using fl_nonneg[of "- x"] 2(1) by (simp add: fl_minus)
    also have "0 \<le> fl y" using 2(2) by (rule fl_nonneg)
    finally show ?thesis .
  next
    case 3
    then have "0 < - y" "- y \<le> - x" using xy by auto
    then have "fl (- y) \<le> fl (- x)" by (rule fl_mono_pos)
    then show ?thesis by (simp add: fl_minus)
  qed
qed

section \<open>Days since creation\<close>

lemma days_floor: "get_days_since_creation c = micros_since c div 86400000000"
proof -
  define d where "d = toordinal NOW - toordinal c"
  define s where "s = seconds_of_day NOW - seconds_of_day c"
  define u where "u = dt_microsecond NOW - dt_microsecond c"
  have "micros_since c = u + (d * 86400 + s) * 1000000"
    by (simp add: micros_since_def d_def s_def u_def)
  then have "micros_since c div 1000000 = u div 1000000 + (d * 86400 + s)"
    by simp
  moreover have "micros_since c div 86400000000 = (micros_since c div 1000000) div 86400"
    using zdiv_zmult2_eq[of 86400 "micros_since c" 1000000] by simp
  moreover have "(u div 1000000 + (d * 86400 + s)) div 86400 = d + (s + u div 1000000) div 86400"
  proof -
    have "u div 1000000 + (d * 86400 + s) = (s + u div 1000000) + d * 86400" by simp
    then show ?thesis by (simp only: div_mult_self1[of 86400 "s + u div 1000000" d])
  qed
  moreover have "get_days_since_creation c = d + (s + u div 1000000) div 86400"
    by (simp add: get_days_since_creation_def datetime_sub_def mk_timedelta_def Let_def
        d_def s_def u_def)
  ultimately show ?thesis by simp
qed

lemma eval_days_one: "get_days_since_creation (mk_datetime 2025 10 6 12) = 1"
  by (simp add: get_days_since_creation_def mk_datetime_def NOW_def datetime_sub_def
      mk_timedelta_def toordinal_def seconds_of_day_def days_before_year_def
      days_before_month_def is_leap_def Let_def)

lemma eval_micros_one: "micros_since (mk_datetime 2025 10 6 12) = 86400000000"
  by (simp add: micros_since_def mk_datetime_def NOW_def toordinal_def seconds_of_day_def
      days_before_year_def days_before_month_def is_leap_def Let_def)

text \<open>
  C8, as the code has it: \<open>get_days_since_creation\<close> is the elapsed time from
  \<open>createdAt\<close> to \<open>NOW\<close> in whole days rounded down (toward minus infinity). For a
  \<open>createdAt\<close> that is not after \<open>NOW\<close> this is the truncated number of whole days; for
  every \<open>createdAt\<close> after \<open>NOW\<close>, also by less than a day, the result is negative.
\<close>

theorem days_since_creation_floor:
  "get_days_since_creation c = micros_since c div 86400000000
   \<and> (0 \<le> micros_since c \<longrightarrow> get_days_since_creation c = whole_days_truncated (micros_since c))
   \<and> (micros_since c < 0 \<longleftrightarrow> get_days_since_creation c < 0)"
proof -
  have "(micros_since c < 0) = (micros_since c div 86400000000 < 0)"
    by (simp add: neg_imp_zdiv_neg_iff pos_imp_zdiv_neg_iff)
  then show ?thesis
    by (simp add: days_floor whole_days_truncated_def)
qed

theorem days_since_creation_floor_witness:
  "0 \<le> micros_since (mk_datetime 2025 10 6 12)
   \<and> get_days_since_creation (mk_datetime 2025 10 6 12) = 1
   \<and> whole_days_truncated (micros_since (mk_datetime 2025 10 6 12)) = 1"
  using days_since_creation_floor[of "mk_datetime 2025 10 6 12"]
  by (simp add: eval_micros_one eval_days_one)

text \<open>
  C8 as stated fails one hour after \<open>NOW\<close> (2025-10-07 13:00): truncation toward zero
  gives 0 whole days, the function returns -1.
\<close>

theorem days_truncated_counterexample:
  "get_days_since_creation (mk_datetime 2025 10 7 13) = - 1
   \<and> whole_days_truncated (micros_since (mk_datetime 2025 10 7 13)) = 0"
  by (simp add: get_days_since_creation_def mk_datetime_def NOW_def datetime_sub_def
      mk_timedelta_def toordinal_def seconds_of_day_def days_before_year_def
      days_before_month_def is_leap_def Let_def micros_since_def whole_days_truncated_def)

section \<open>The run as a whole\<close>

text \<open>
  C3: the generator is seeded before any draw and \<open>NOW\<close> is a constant, so two runs over
  the same files end alike whatever state the generator of each process started in.
\<close>

theorem script_deterministic:
  "seed_resets R \<Longrightarrow> script R fs g0 = script R fs g0'"
proof -
  assume "seed_resets R"
  then have "random_seed R 42 g0 = random_seed R 42 g0'"
    unfolding seed_resets_def by blast
  then show ?thesis by (simp add: script_def)
qed

theorem script_deterministic_witness:
  "seed_resets counter_random
   \<and> script counter_random demo_files 0 = script counter_random demo_files 7"
proof -
  have h: "seed_resets counter_random"
    by (simp add: seed_resets_def counter_random_def)
  show ?thesis using h script_deterministic[OF h, of demo_files 0 7] by simp
qed

text \<open>
  C10: whether the run completes or raises, the courses and users files are as before,
  and the posts file holds the posts that were loaded, element for element.
\<close>

theorem script_frame:
  "f_courses (snd (script R fs g0)) = f_courses fs
   \<and> f_users (snd (script R fs g0)) = f_users fs
   \<and> f_posts (snd (script R fs g0)) = f_posts fs"
  by (simp add: script_def Let_def split: sum.splits prod.splits)

section \<open>Dangling references\<close>

lemma courses_by_id_None:
  "fold (\<lambda>c m. m(c_id c \<mapsto> c)) cs m0 k = None \<longleftrightarrow> k \<notin> c_id ` set cs \<and> m0 k = None"
  by (induction cs arbitrary: m0) auto

lemma create_lookups_course:
  "courses_by_id (create_lookups fs) k = None \<longleftrightarrow> k \<notin> c_id ` set (f_courses fs)"
  by (simp add: create_lookups_def courses_by_id_None)

lemma calculate_thread_views_Inl:
  "calculate_thread_views R env t g = Inl e \<longleftrightarrow> e = KeyError \<and> courses_by_id env (t_courseId t) = None"
  by (auto simp: calculate_thread_views_def Let_def split: option.splits prod.splits)

lemma thread_loop_Inl:
  "apply_thread_metrics R env ts g = Inl e
     \<longleftrightarrow> e = KeyError \<and> (\<exists>t\<in>set ts. courses_by_id env (t_courseId t) = None)"
proof (induction ts arbitrary: g)
  case Nil
  then show ?case by simp
next
  case (Cons t ts)
  show ?case
  proof (cases "calculate_thread_views R env t g")
    case (Inl e')
    then show ?thesis using calculate_thread_views_Inl[of R env t g e'] by auto
  next
    case (Inr r)
    obtain v g1 where r: "r = (v, g1)" by (cases r)
    have c: "courses_by_id env (t_courseId t) \<noteq> None"
      using Inr calculate_thread_views_Inl[of R env t g KeyError] by auto
    show ?thesis
      using Cons.IH[of g1] c Inr r
      by (auto split: sum.splits)
  qed
qed

lemma thread_loop_ids:
  "apply_thread_metrics R env ts g = Inr (ts', g') \<Longrightarrow> map t_id ts' = map t_id ts"
  by (induction ts arbitrary: g ts' g') (auto split: sum.splits prod.splits)

lemma thread_loop_length:
  "apply_thread_metrics R env ts g = Inr (ts', g') \<Longrightarrow> ts' = [] \<longleftrightarrow> ts = []"
  using thread_loop_ids[of R env ts g ts' g'] by (metis map_is_Nil_conv)

lemma ai_answer_Inl:
  "apply_ai_answer_metrics R threads a g = Inl e \<Longrightarrow> e = KeyError \<or> e = StopIteration"
  by (auto simp: apply_ai_answer_metrics_def Let_def split: option.splits prod.splits)

lemma ai_answer_dangling:
  "a_threadId a \<notin> t_id ` set threads \<Longrightarrow> apply_ai_answer_metrics R threads a g = Inl StopIteration"
proof -
  assume "a_threadId a \<notin> t_id ` set threads"
  then have "find (\<lambda>t. t_id t = a_threadId a) threads = None"
    unfolding find_None_iff by (metis imageI)
  then show ?thesis by (simp add: apply_ai_answer_metrics_def)
qed

lemma ai_loop_Inl:
  "apply_ai_metrics R threads as g = Inl e \<Longrightarrow> e = KeyError \<or> e = StopIteration"
proof (induction as arbitrary: g)
  case Nil
  then show ?case by simp
next
  case (Cons a as)
  then show ?case
    by (auto split: sum.splits prod.splits dest: ai_answer_Inl)
qed

lemma ai_loop_dangling:
  "a \<in> set as \<Longrightarrow> a_threadId a \<notin> t_id ` set threads
     \<Longrightarrow> \<exists>e. apply_ai_metrics R threads as g = Inl e"
proof (induction as arbitrary: g)
  case Nil
  then show ?case by simp
next
  case (Cons b as)
  show ?case
  proof (cases "apply_ai_answer_metrics R threads b g")
    case (Inl e)
    then show ?thesis by simp
  next
    case (Inr r)
    obtain b' g1 where r: "r = (b', g1)" by (cases r)
    have "a \<noteq> b" using Inr ai_answer_dangling[OF Cons.prems(2), of R g] by auto
    then have "a \<in> set as" using Cons.prems(1) by simp
    then obtain e where "apply_ai_metrics R threads as g1 = Inl e"
      using Cons.IH[OF _ Cons.prems(2), of g1] by blast
    then show ?thesis using Inr r by simp
  qed
qed

lemma ai_loop_member:
  "apply_ai_metrics R threads as g = Inr (as', g') \<Longrightarrow> a' \<in> set as'
     \<Longrightarrow> \<exists>a g1 g2. a \<in> set as \<and> apply_ai_answer_metrics R threads a g1 = Inr (a', g2)"
proof (induction as arbitrary: g as' g')
  case Nil
  then show ?case by simp
next
  case (Cons b as)
  from Cons.prems(1) obtain b' g1 as1 where
    b: "apply_ai_answer_metrics R threads b g = Inr (b', g1)" and
    r: "apply_ai_metrics R threads as g1 = Inr (as1, g')" and
    e: "as' = b' # as1"
    by (auto split: sum.splits prod.splits)
  show ?case
  proof (cases "a' = b'")
    case True
    then show ?thesis using b by auto
  next
    case False
    then have "a' \<in> set as1" using Cons.prems(2) e by simp
    from Cons.IH[OF r this] show ?thesis by auto
  qed
qed

text \<open>
  C9, as the code has it: a thread whose \<open>courseId\<close> matches no course, or an AI answer
  whose \<open>threadId\<close> matches no thread, ends the run with a lookup failure
  (\<open>KeyError\<close> or \<open>StopIteration\<close>) before any file is written. Nothing is said
  here about posts: \<open>posts_by_thread\<close> is only ever read with \<open>.get\<close>.
\<close>

theorem dangling_reference_aborts:
  "(\<exists>t\<in>set (f_threads fs). t_courseId t \<notin> c_id ` set (f_courses fs))
     \<or> (\<exists>a\<in>set (f_ai_answers fs). a_threadId a \<notin> t_id ` set (f_threads fs))
   \<Longrightarrow> (fst (script R fs g0) = Some KeyError \<or> fst (script R fs g0) = Some StopIteration)
       \<and> snd (script R fs g0) = fs"
proof -
  assume h: "(\<exists>t\<in>set (f_threads fs). t_courseId t \<notin> c_id ` set (f_courses fs))
     \<or> (\<exists>a\<in>set (f_ai_answers fs). a_threadId a \<notin> t_id ` set (f_threads fs))"
  define g where "g = random_seed R 42 g0"
  define env where "env = create_lookups fs"
  show ?thesis
  proof (cases "apply_thread_metrics R env (f_threads fs) g")
    case (Inl e)
    then have "e = KeyError" using thread_loop_Inl[of R env "f_threads fs" g e] by simp
    then show ?thesis using Inl by (simp add: script_def g_def env_def)
  next
    case (Inr r)
    obtain ts' g1 where r: "r = (ts', g1)" by (cases r)
    have nc: "\<not> (\<exists>t\<in>set (f_threads fs). courses_by_id env (t_courseId t) = None)"
      using Inr thread_loop_Inl[of R env "f_threads fs" g KeyError] by auto
    then have "\<not> (\<exists>t\<in>set (f_threads fs). t_courseId t \<notin> c_id ` set (f_courses fs))"
      by (simp add: env_def create_lookups_course)
    with h obtain a where a: "a \<in> set (f_ai_answers fs)"
      "a_threadId a \<notin> t_id ` set (f_threads fs)" by blast
    have "set (map t_id ts') = set (map t_id (f_threads fs))"
      using thread_loop_ids[of R env "f_threads fs" g ts' g1] Inr r by simp
    then have "a_threadId a \<notin> t_id ` set ts'" using a(2) by simp
    from ai_loop_dangling[OF a(1) this, where R = R and g = g1] obtain e where
      e: "apply_ai_metrics R ts' (f_ai_answers fs) g1 = Inl e" by blast
    then have "e = KeyError \<or> e = StopIteration" by (rule ai_loop_Inl)
    then show ?thesis using Inr r e by (auto simp: script_def g_def env_def)
  qed
qed


lemma thread_loop_Inr:
  "\<forall>t\<in>set ts. courses_by_id env (t_courseId t) \<noteq> None
     \<Longrightarrow> \<exists>ts' g'. apply_thread_metrics R env ts g = Inr (ts', g')"
proof -
  assume a: "\<forall>t\<in>set ts. courses_by_id env (t_courseId t) \<noteq> None"
  show ?thesis
  proof (cases "apply_thread_metrics R env ts g")
    case (Inl e)
    then show ?thesis using a thread_loop_Inl[of R env ts g e] by auto
  next
    case (Inr r)
    then show ?thesis by (cases r) auto
  qed
qed

lemma script_completes:
  assumes "\<forall>t\<in>set (f_threads fs). t_courseId t \<in> c_id ` set (f_courses fs)"
    and "f_ai_answers fs = []" and "f_threads fs \<noteq> []" and "f_posts fs \<noteq> []"
  shows "fst (script R fs g0) = None"
proof -
  have "\<forall>t\<in>set (f_threads fs). courses_by_id (create_lookups fs) (t_courseId t) \<noteq> None"
    using assms(1) by (simp add: create_lookups_course)
  then obtain ts' g' where
    t: "apply_thread_metrics R (create_lookups fs) (f_threads fs) (random_seed R 42 g0) = Inr (ts', g')"
    using thread_loop_Inr[where R = R and env = "create_lookups fs" and ts = "f_threads fs"
        and g = "random_seed R 42 g0"] by blast
  have "ts' \<noteq> []" using thread_loop_length[OF t] assms(3) by simp
  then show ?thesis using t assms(2,4) by (simp add: script_def print_summary_def)
qed

theorem dangling_reference_aborts_witness:
  "t_courseId thread_no_course \<notin> c_id ` set (f_courses files_dangling_course)
   \<and> (fst (script counter_random files_dangling_course 0) = Some KeyError
        \<or> fst (script counter_random files_dangling_course 0) = Some StopIteration)
   \<and> snd (script counter_random files_dangling_course 0) = files_dangling_course
   \<and> a_threadId ai_no_thread \<notin> t_id ` set (f_threads files_dangling_ai)
   \<and> (fst (script counter_random files_dangling_ai 0) = Some KeyError
        \<or> fst (script counter_random files_dangling_ai 0) = Some StopIteration)
   \<and> snd (script counter_random files_dangling_ai 0) = files_dangling_ai"
proof -
  have c: "t_courseId thread_no_course \<notin> c_id ` set (f_courses files_dangling_course)"
    by (simp add: thread_no_course_def files_dangling_course_def demo_files_def demo_courses_def)
  have c': "\<exists>t\<in>set (f_threads files_dangling_course).
              t_courseId t \<notin> c_id ` set (f_courses files_dangling_course)"
    using c by (simp add: files_dangling_course_def)
  have a: "a_threadId ai_no_thread \<notin> t_id ` set (f_threads files_dangling_ai)"
    by (simp add: ai_no_thread_def files_dangling_ai_def demo_files_def thread_resolved_def
        thread_open_def)
  have a': "\<exists>a\<in>set (f_ai_answers files_dangling_ai).
              a_threadId a \<notin> t_id ` set (f_threads files_dangling_ai)"
    using a by (simp add: files_dangling_ai_def)
  show ?thesis
    using c a
      dangling_reference_aborts[of files_dangling_course counter_random 0, OF disjI1, OF c']
      dangling_reference_aborts[of files_dangling_ai counter_random 0, OF disjI2, OF a']
    by simp
qed

text \<open>
  C9 as stated fails for posts: with one thread, no AI answer and a post that names a
  thread that is not in the file, the run completes.
\<close>

theorem dangling_post_counterexample:
  "p_threadId (hd (f_posts files_dangling_post)) \<notin> t_id ` set (f_threads files_dangling_post)
   \<and> fst (script counter_random files_dangling_post 0) = None"
proof -
  have "fst (script counter_random files_dangling_post 0) = None"
    by (rule script_completes)
       (simp_all add: files_dangling_post_def demo_files_def thread_open_def demo_courses_def
          demo_posts_def)
  then show ?thesis
    by (simp add: files_dangling_post_def demo_files_def demo_posts_def thread_open_def)
qed

section \<open>Float operations on the concrete inputs\<close>

text \<open>Each line is one rounded operation, evaluated on its own.\<close>

lemma float_steps_a:
  "fl 0 = 0"
  "fl 1 = 1"
  "fl (3 / 10) = 5404319552844595 / 18014398509481984"
  "fl (2 / 10) = 3602879701896397 / 18014398509481984"
  "fl (1 / 5) = 3602879701896397 / 18014398509481984"
  "fl (25 / 100) = 1 / 4"
  "fl (1 / 4) = 1 / 4"
  "fl (5 / 10) = 1 / 2"
  "fl (1 / 2) = 1 / 2"
  "fl (25 / 10) = 5 / 2"
  by code_simp+

lemma float_steps_b:
  "fl (5 / 2) = 5 / 2"
  "fl (8 / 10) = 3602879701896397 / 4503599627370496"
  "fl (4 / 5) = 3602879701896397 / 4503599627370496"
  "fl (13 / 10) = 5854679515581645 / 4503599627370496"
  "fl (6 / 10) = 5404319552844595 / 9007199254740992"
  "fl (3 / 5) = 5404319552844595 / 9007199254740992"
  "fl (4 / 10) = 3602879701896397 / 9007199254740992"
  "fl (2 / 5) = 3602879701896397 / 9007199254740992"
  "fadd 0 (5404319552844595 / 18014398509481984) = 5404319552844595 / 18014398509481984"
  "fadd (5404319552844595 / 18014398509481984) (3602879701896397 / 18014398509481984) = 1 / 2"
  by code_simp+

lemma float_steps_c:
  "fadd (1 / 2) (5404319552844595 / 18014398509481984) = 3602879701896397 / 4503599627370496"
  "fadd (3602879701896397 / 4503599627370496) (3602879701896397 / 18014398509481984) = 1"
  "fadd 1 (1 / 4) = 5 / 4"
  "fadd 1 (5 / 4) = 9 / 4"
  "float_of_int 1 = 1"
  "truediv 14 7 = 2"
  "fmul 2 (1 / 2) = 1"
  "fadd 1 1 = 2"
  "float_of_int 25 = 25"
  "fmul 25 2 = 50"
  by code_simp+

lemma float_steps_d:
  "fmul 50 (9 / 4) = 225 / 2"
  "fmul (225 / 2) (5854679515581645 / 4503599627370496) = 585 / 4"
  "py_int (585 / 4) = 146"
  "fadd 0 (3602879701896397 / 18014398509481984) = 3602879701896397 / 18014398509481984"
  "fadd (3602879701896397 / 18014398509481984) (3602879701896397 / 18014398509481984) = 3602879701896397 / 9007199254740992"
  "fadd 1 (3602879701896397 / 9007199254740992) = 3152519739159347 / 2251799813685248"
  "truediv 1 7 = 2573485501354569 / 18014398509481984"
  "fmul (2573485501354569 / 18014398509481984) (1 / 2) = 2573485501354569 / 36028797018963968"
  "fadd 1 (2573485501354569 / 36028797018963968) = 4825285315039817 / 4503599627370496"
  "float_of_int 8 = 8"
  by code_simp+

lemma float_steps_e:
  "fmul 8 (4825285315039817 / 4503599627370496) = 4825285315039817 / 562949953421312"
  "fmul (4825285315039817 / 562949953421312) (3152519739159347 / 2251799813685248) = 6755399441055743 / 562949953421312"
  "fmul (6755399441055743 / 562949953421312) 1 = 6755399441055743 / 562949953421312"
  "py_int (6755399441055743 / 562949953421312) = 11"
  "fadd 1 0 = 1"
  "truediv (- 54) 7 = - (8685513567071671 / 1125899906842624)"
  "fmul (- (8685513567071671 / 1125899906842624)) (1 / 2) = - (8685513567071671 / 2251799813685248)"
  "fadd 1 (- (8685513567071671 / 2251799813685248)) = - (6433713753386423 / 2251799813685248)"
  "float_of_int 10 = 10"
  "fmul 10 (- (6433713753386423 / 2251799813685248)) = - (8042142191733029 / 281474976710656)"
  by code_simp+

lemma float_steps_f:
  "fmul (- (8042142191733029 / 281474976710656)) 1 = - (8042142191733029 / 281474976710656)"
  "fmul (- (8042142191733029 / 281474976710656)) (3602879701896397 / 4503599627370496) = - (804214219173303 / 35184372088832)"
  "py_int (- (804214219173303 / 35184372088832)) = - 22"
  "\<lfloor>- (804214219173303 / 35184372088832) :: rat\<rfloor> = - 23"
  "fl (- 2) = - 2"
  "fl (- 1) = - 1"
  "fl (5404319552844595 / 18014398509481984) = 5404319552844595 / 18014398509481984"
  "fmul (5404319552844595 / 18014398509481984) (7 / 8) = 4728779608739021 / 18014398509481984"
  "fadd (5404319552844595 / 18014398509481984) (4728779608739021 / 18014398509481984) = 9 / 16"
  "truediv 90 100 = 8106479329266893 / 9007199254740992"
  by code_simp+

lemma float_steps_g:
  "truediv 146 10 = 8219069319951155 / 562949953421312"
  "fmul (8106479329266893 / 9007199254740992) (8219069319951155 / 562949953421312) = 924645298494505 / 70368744177664"
  "fmul (924645298494505 / 70368744177664) (9 / 16) = 8321807686450545 / 1125899906842624"
  "py_int (8321807686450545 / 1125899906842624) = 7"
  "float_of_int 7 = 7"
  "fmul 7 (5404319552844595 / 18014398509481984) = 4728779608739021 / 2251799813685248"
  "py_int (4728779608739021 / 2251799813685248) = 2"
  "fl (3602879701896397 / 18014398509481984) = 3602879701896397 / 18014398509481984"
  "fmul (3602879701896397 / 18014398509481984) (3 / 8) = 1351079888211149 / 18014398509481984"
  "fadd (3602879701896397 / 18014398509481984) (1351079888211149 / 18014398509481984) = 2476979795053773 / 9007199254740992"
  by code_simp+

lemma float_steps_h:
  "truediv 70 100 = 3152519739159347 / 4503599627370496"
  "truediv 146 20 = 8219069319951155 / 1125899906842624"
  "fmul (3152519739159347 / 4503599627370496) (8219069319951155 / 1125899906842624) = 359584282747863 / 70368744177664"
  "fmul (359584282747863 / 70368744177664) (2476979795053773 / 9007199254740992) = 6328683376362389 / 4503599627370496"
  "py_int (6328683376362389 / 4503599627370496) = 1"
  "fadd 0 (1 / 4) = 1 / 4"
  "fl (5 / 4) = 5 / 4"
  "fadd 1 (3602879701896397 / 18014398509481984) = 5404319552844595 / 4503599627370496"
  "fl (6 / 5) = 5404319552844595 / 4503599627370496"
  "fadd (3602879701896397 / 18014398509481984) (1 / 4) = 8106479329266893 / 18014398509481984"
  by code_simp+

lemma float_steps_i:
  "fadd 1 (8106479329266893 / 18014398509481984) = 6530219459687219 / 4503599627370496"
  "fl (29 / 20) = 6530219459687219 / 4503599627370496"
  "fadd 1 (5404319552844595 / 18014398509481984) = 5854679515581645 / 4503599627370496"
  "fadd (5404319552844595 / 18014398509481984) (1 / 4) = 2476979795053773 / 4503599627370496"
  "fadd 1 (2476979795053773 / 4503599627370496) = 6980579422424269 / 4503599627370496"
  "fl (31 / 20) = 6980579422424269 / 4503599627370496"
  "fadd 1 (1 / 2) = 3 / 2"
  "fl (3 / 2) = 3 / 2"
  "fadd (1 / 2) (1 / 4) = 3 / 4"
  "fadd 1 (3 / 4) = 7 / 4"
  by code_simp+

lemma float_steps_j:
  "fl (7 / 4) = 7 / 4"
  "fl (7 / 5) = 3152519739159347 / 2251799813685248"
  "fadd (3602879701896397 / 9007199254740992) (1 / 4) = 5854679515581645 / 9007199254740992"
  "fadd 1 (5854679515581645 / 9007199254740992) = 3715469692580659 / 2251799813685248"
  "fl (33 / 20) = 3715469692580659 / 2251799813685248"
  "fadd (3602879701896397 / 18014398509481984) (5404319552844595 / 18014398509481984) = 1 / 2"
  "fadd (1 / 2) (3602879701896397 / 18014398509481984) = 3152519739159347 / 4503599627370496"
  "fadd 1 (3152519739159347 / 4503599627370496) = 7656119366529843 / 4503599627370496"
  "fl (17 / 10) = 7656119366529843 / 4503599627370496"
  "fadd (3152519739159347 / 4503599627370496) (1 / 4) = 4278419646001971 / 4503599627370496"
  by code_simp+

lemma float_steps_k:
  "fadd 1 (4278419646001971 / 4503599627370496) = 8782019273372467 / 4503599627370496"
  "fl (39 / 20) = 8782019273372467 / 4503599627370496"
  "fadd (5404319552844595 / 18014398509481984) (5404319552844595 / 18014398509481984) = 5404319552844595 / 9007199254740992"
  "fadd 1 (5404319552844595 / 9007199254740992) = 3602879701896397 / 2251799813685248"
  "fl (8 / 5) = 3602879701896397 / 2251799813685248"
  "fadd (5404319552844595 / 9007199254740992) (1 / 4) = 7656119366529843 / 9007199254740992"
  "fadd 1 (7656119366529843 / 9007199254740992) = 4165829655317709 / 2251799813685248"
  "fl (37 / 20) = 4165829655317709 / 2251799813685248"
  "fadd (5404319552844595 / 9007199254740992) (3602879701896397 / 18014398509481984) = 3602879701896397 / 4503599627370496"
  "fadd 1 (3602879701896397 / 4503599627370496) = 8106479329266893 / 4503599627370496"
  by code_simp+

lemma float_steps_l:
  "fl (9 / 5) = 8106479329266893 / 4503599627370496"
  "fadd (3602879701896397 / 4503599627370496) (1 / 4) = 4728779608739021 / 4503599627370496"
  "fadd 1 (4728779608739021 / 4503599627370496) = 2308094809027379 / 1125899906842624"
  "fl (41 / 20) = 2308094809027379 / 1125899906842624"
  "fl 2 = 2"
  "fl (9 / 4) = 9 / 4"
  by code_simp+

lemmas float_steps =
  float_steps_a float_steps_b float_steps_c float_steps_d
  float_steps_e float_steps_f float_steps_g float_steps_h
  float_steps_i float_steps_j float_steps_k float_steps_l

section \<open>AI answers\<close>

lemma float_of_int_nonneg: "0 \<le> n \<Longrightarrow> 0 \<le> float_of_int n"
  by (simp add: float_of_int_def fl_nonneg)

lemma fmul_nonneg: "0 \<le> a \<Longrightarrow> 0 \<le> b \<Longrightarrow> 0 \<le> fmul a b"
  by (simp add: fmul_def fl_nonneg)

lemma fadd_nonneg: "0 \<le> a \<Longrightarrow> 0 \<le> b \<Longrightarrow> 0 \<le> fadd a b"
  by (simp add: fadd_def fl_nonneg)

lemma py_int_nonneg: "0 \<le> x \<Longrightarrow> 0 \<le> py_int x"
  by (simp add: py_int_def)

lemma py_int_floor: "0 \<le> x \<Longrightarrow> py_int x = \<lfloor>x\<rfloor>"
  by (simp add: py_int_def)

lemma boost_nonneg: "0 \<le> s \<Longrightarrow> 0 \<le> py_int (fmul (float_of_int s) (fl (3 / 10)))"
  by (intro py_int_nonneg fmul_nonneg float_of_int_nonneg fl_nonneg) simp_all

lemma student_endorsements_nonneg:
  "0 \<le> fst (calculate_ai_student_endorsements R a v g)"
  by (simp add: calculate_ai_student_endorsements_def Let_def split: prod.splits)

lemma should_endorse_iff:
  "fst (should_instructor_endorse R a v d g) \<longleftrightarrow>
     80 \<le> confidenceScore a \<and> 2 \<le> length (filter (\<lambda>c. 80 \<le> relevance c) (citations a))
     \<and> 1 \<le> d \<and> 20 \<le> v \<and> fst (random_random R g) < fl (4 / 10)"
  by (auto simp: should_instructor_endorse_def Let_def split: prod.splits)

lemma ai_answer_fields:
  assumes "apply_ai_answer_metrics R threads a g = Inr (a', g')"
  shows "\<exists>thread views g1.
           find (\<lambda>t. t_id t = a_threadId a) threads = Some thread
           \<and> t_views thread = Some views
           \<and> g1 = snd (calculate_ai_student_endorsements R a views g)
           \<and> studentEndorsements a' = Some (fst (calculate_ai_student_endorsements R a views g))
           \<and> instructorEndorsements a' =
               Some (if fst (should_instructor_endorse R a views
                               (get_days_since_creation (t_createdAt thread)) g1) then 1 else 0)"
    and "\<exists>s i. studentEndorsements a' = Some s \<and> instructorEndorsements a' = Some i
           \<and> instructorEndorsed a' = Some (0 < i) \<and> 0 \<le> s \<and> (i = 0 \<or> i = 1)
           \<and> totalEndorsements a' =
               Some (s + i + (if 0 < i then py_int (fmul (float_of_int s) (fl (3 / 10))) else 0))"
proof -
  from assms obtain thread views where
    f: "find (\<lambda>t. t_id t = a_threadId a) threads = Some thread" and
    v: "t_views thread = Some views"
    by (auto simp: apply_ai_answer_metrics_def Let_def split: option.splits)
  obtain s g1 where s: "calculate_ai_student_endorsements R a views g = (s, g1)"
    by (cases "calculate_ai_student_endorsements R a views g")
  obtain b g2 where b: "should_instructor_endorse R a views
      (get_days_since_creation (t_createdAt thread)) g1 = (b, g2)"
    by (cases "should_instructor_endorse R a views
      (get_days_since_creation (t_createdAt thread)) g1")
  have a': "a' = a\<lparr>studentEndorsements := Some s,
                    instructorEndorsements := Some (if b then 1 else 0),
                    instructorEndorsed := Some (0 < (if b then 1 else (0::int))),
                    totalEndorsements := Some (if 0 < (if b then 1 else (0::int))
                       then s + (if b then 1 else 0)
                            + py_int (fmul (float_of_int s) (fl (3 / 10)))
                       else s + (if b then 1 else 0))\<rparr>"
    using assms f v s b by (simp add: apply_ai_answer_metrics_def Let_def)
  have s0: "0 \<le> s" using student_endorsements_nonneg[of R a views g] s by simp
  show "\<exists>thread views g1.
           find (\<lambda>t. t_id t = a_threadId a) threads = Some thread
           \<and> t_views thread = Some views
           \<and> g1 = snd (calculate_ai_student_endorsements R a views g)
           \<and> studentEndorsements a' = Some (fst (calculate_ai_student_endorsements R a views g))
           \<and> instructorEndorsements a' =
               Some (if fst (should_instructor_endorse R a views
                               (get_days_since_creation (t_createdAt thread)) g1) then 1 else 0)"
    using f v s b a' by simp
  show "\<exists>s i. studentEndorsements a' = Some s \<and> instructorEndorsements a' = Some i
           \<and> instructorEndorsed a' = Some (0 < i) \<and> 0 \<le> s \<and> (i = 0 \<or> i = 1)
           \<and> totalEndorsements a' =
               Some (s + i + (if 0 < i then py_int (fmul (float_of_int s) (fl (3 / 10))) else 0))"
    using a' s0 by (cases b) simp_all
qed


lemma eval_days_14: "get_days_since_creation (mk_datetime 2025 9 23 12) = 14"
  by (simp add: get_days_since_creation_def mk_datetime_def NOW_def datetime_sub_def
      mk_timedelta_def toordinal_def seconds_of_day_def days_before_year_def
      days_before_month_def is_leap_def Let_def)

lemma eval_student_demo:
  "calculate_ai_student_endorsements counter_random demo_ai_answer 146 7 = (7, 8)"
  by (simp add: calculate_ai_student_endorsements_def counter_random_def demo_ai_answer_def
      Let_def float_steps)

lemma eval_endorse_demo:
  "should_instructor_endorse counter_random demo_ai_answer 146 14 8 = (True, 9)"
  by (simp add: should_instructor_endorse_def counter_random_def demo_ai_answer_def
      Let_def float_steps)

lemma eval_ai_demo:
  "apply_ai_answer_metrics counter_random [thread_resolved_viewed] demo_ai_answer 7 =
     Inr (demo_ai_answer_written, 9)"
proof -
  have t: "a_threadId demo_ai_answer = ''t1''" by (simp add: demo_ai_answer_def)
  show ?thesis
    by (simp add: apply_ai_answer_metrics_def t eval_student_demo eval_endorse_demo eval_days_14
        thread_resolved_viewed_def thread_resolved_def float_steps demo_ai_answer_written_def)
qed

lemma eval_student_weak:
  "calculate_ai_student_endorsements counter_random weak_ai_answer 146 3 = (1, 4)"
  by (simp add: calculate_ai_student_endorsements_def counter_random_def weak_ai_answer_def
      Let_def float_steps)

lemma eval_ai_weak:
  "apply_ai_answer_metrics counter_random [thread_resolved_viewed] weak_ai_answer 3 =
     Inr (weak_ai_answer_written, 4)"
proof -
  have t: "a_threadId weak_ai_answer = ''t1''" "confidenceScore weak_ai_answer = 70"
    by (simp_all add: weak_ai_answer_def)
  show ?thesis
    by (simp add: apply_ai_answer_metrics_def t eval_student_weak should_instructor_endorse_def
        eval_days_14 thread_resolved_viewed_def thread_resolved_def weak_ai_answer_written_def)
qed


lemma eval_ai_loop_demo:
  "apply_ai_metrics counter_random [thread_resolved_viewed] [demo_ai_answer] 7 =
     Inr ([demo_ai_answer_written], 9)"
  by (simp add: eval_ai_demo)

text \<open>
  C4: \<open>should_instructor_endorse\<close> returns true only if the confidence is at least 80,
  at least two citations have relevance 80 or more, the thread is at least one day old,
  it has at least 20 views and the draw \<open>random()\<close> is below 0.4. With fewer than two
  such citations the loop writes \<open>instructorEndorsements = 0\<close>, whatever the other
  inputs and the generator.
\<close>

theorem instructor_gate:
  "(fst (should_instructor_endorse R a v d g) \<longrightarrow>
      80 \<le> confidenceScore a \<and> 2 \<le> length (filter (\<lambda>c. 80 \<le> relevance c) (citations a))
      \<and> 1 \<le> d \<and> 20 \<le> v \<and> fst (random_random R g) < fl (4 / 10))
   \<and> (length (filter (\<lambda>c. 80 \<le> relevance c) (citations a)) < 2
        \<and> apply_ai_answer_metrics R threads a g = Inr (a', g')
      \<longrightarrow> instructorEndorsements a' = Some 0)"
proof -
  have "instructorEndorsements a' = Some 0"
    if c: "length (filter (\<lambda>c. 80 \<le> relevance c) (citations a)) < 2"
      and r: "apply_ai_answer_metrics R threads a g = Inr (a', g')"
  proof -
    have "\<not> fst (should_instructor_endorse R a v' d' g1)" for v' d' g1
      using c by (simp add: should_endorse_iff)
    then show ?thesis using ai_answer_fields(1)[OF r] by auto
  qed
  then show ?thesis by (auto simp: should_endorse_iff)
qed

theorem instructor_gate_witness:
  "fst (should_instructor_endorse counter_random demo_ai_answer 146 14 8)
   \<and> 80 \<le> confidenceScore demo_ai_answer
   \<and> 2 \<le> length (filter (\<lambda>c. 80 \<le> relevance c) (citations demo_ai_answer))
   \<and> fst (random_random counter_random 8) < fl (4 / 10)
   \<and> length (filter (\<lambda>c. 80 \<le> relevance c) (citations weak_ai_answer)) < 2
   \<and> apply_ai_answer_metrics counter_random [thread_resolved_viewed] weak_ai_answer 3 =
       Inr (weak_ai_answer_written, 4)
   \<and> instructorEndorsements weak_ai_answer_written = Some 0"
proof -
  have w: "length (filter (\<lambda>c. 80 \<le> relevance c) (citations weak_ai_answer)) < 2"
    by (simp add: weak_ai_answer_def)
  have e: "fst (should_instructor_endorse counter_random demo_ai_answer 146 14 8)"
    by (simp add: eval_endorse_demo)
  show ?thesis
    using w e eval_ai_weak
      instructor_gate[of counter_random demo_ai_answer 146 14 8 "[]" demo_ai_answer 0]
      instructor_gate[of counter_random weak_ai_answer 146 14 3 "[thread_resolved_viewed]"
        weak_ai_answer_written 4]
    by simp
qed

text \<open>
  C5: every AI answer the second loop has written has \<open>studentEndorsements \<ge> 0\<close>,
  \<open>instructorEndorsements\<close> 0 or 1 and
  \<open>totalEndorsements \<ge> studentEndorsements + instructorEndorsements\<close>.
\<close>

theorem endorsement_invariants:
  "apply_ai_metrics R threads as g = Inr (as', g') \<Longrightarrow>
     \<forall>a'\<in>set as'. \<exists>s i t.
        studentEndorsements a' = Some s \<and> instructorEndorsements a' = Some i
        \<and> totalEndorsements a' = Some t
        \<and> 0 \<le> s \<and> (i = 0 \<or> i = 1) \<and> s + i \<le> t"
proof
  fix a'
  assume r: "apply_ai_metrics R threads as g = Inr (as', g')" and m: "a' \<in> set as'"
  from ai_loop_member[OF r m] obtain a g1 g2 where
    b: "apply_ai_answer_metrics R threads a g1 = Inr (a', g2)" by blast
  from ai_answer_fields(2)[OF b] obtain s i where
    f: "studentEndorsements a' = Some s" "instructorEndorsements a' = Some i"
       "0 \<le> s" "i = 0 \<or> i = 1"
       "totalEndorsements a' =
          Some (s + i + (if 0 < i then py_int (fmul (float_of_int s) (fl (3 / 10))) else 0))"
    by blast
  have "s + i \<le> s + i + (if 0 < i then py_int (fmul (float_of_int s) (fl (3 / 10))) else 0)"
    using boost_nonneg[OF f(3)] by simp
  then show "\<exists>s i t.
        studentEndorsements a' = Some s \<and> instructorEndorsements a' = Some i
        \<and> totalEndorsements a' = Some t
        \<and> 0 \<le> s \<and> (i = 0 \<or> i = 1) \<and> s + i \<le> t"
    using f by blast
qed

theorem endorsement_invariants_witness:
  "apply_ai_metrics counter_random [thread_resolved_viewed] [demo_ai_answer] 7 =
     Inr ([demo_ai_answer_written], 9)
   \<and> studentEndorsements demo_ai_answer_written = Some 7
   \<and> instructorEndorsements demo_ai_answer_written = Some 1
   \<and> totalEndorsements demo_ai_answer_written = Some 10
   \<and> (0 :: int) \<le> 7 \<and> (7 :: int) + 1 \<le> 10"
  using eval_ai_loop_demo endorsement_invariants[OF eval_ai_loop_demo]
  by (simp add: demo_ai_answer_written_def)

text \<open>
  C6: for every AI answer the second loop has written, \<open>totalEndorsements\<close> is
  \<open>studentEndorsements + instructorEndorsements\<close>, plus the floor of the float product
  \<open>studentEndorsements * 0.3\<close> exactly when the instructor endorsed, and
  \<open>instructorEndorsed\<close> is true if and only if \<open>instructorEndorsements > 0\<close>.
\<close>

theorem total_endorsements_formula:
  "apply_ai_metrics R threads as g = Inr (as', g') \<Longrightarrow>
     \<forall>a'\<in>set as'. \<exists>s i.
        studentEndorsements a' = Some s \<and> instructorEndorsements a' = Some i
        \<and> instructorEndorsed a' = Some (0 < i)
        \<and> totalEndorsements a' =
            Some (s + i + (if 0 < i then \<lfloor>fmul (float_of_int s) (fl (3 / 10))\<rfloor> else 0))"
proof
  fix a'
  assume r: "apply_ai_metrics R threads as g = Inr (as', g')" and m: "a' \<in> set as'"
  from ai_loop_member[OF r m] obtain a g1 g2 where
    b: "apply_ai_answer_metrics R threads a g1 = Inr (a', g2)" by blast
  from ai_answer_fields(2)[OF b] obtain s i where
    f: "studentEndorsements a' = Some s" "instructorEndorsements a' = Some i"
       "instructorEndorsed a' = Some (0 < i)" "0 \<le> s"
       "totalEndorsements a' =
          Some (s + i + (if 0 < i then py_int (fmul (float_of_int s) (fl (3 / 10))) else 0))"
    by blast
  have "py_int (fmul (float_of_int s) (fl (3 / 10))) = \<lfloor>fmul (float_of_int s) (fl (3 / 10))\<rfloor>"
    by (intro py_int_floor fmul_nonneg float_of_int_nonneg fl_nonneg f(4)) simp
  then show "\<exists>s i.
        studentEndorsements a' = Some s \<and> instructorEndorsements a' = Some i
        \<and> instructorEndorsed a' = Some (0 < i)
        \<and> totalEndorsements a' =
            Some (s + i + (if 0 < i then \<lfloor>fmul (float_of_int s) (fl (3 / 10))\<rfloor> else 0))"
    using f by auto
qed

theorem total_endorsements_formula_witness:
  "apply_ai_metrics counter_random [thread_resolved_viewed] [demo_ai_answer] 7 =
     Inr ([demo_ai_answer_written], 9)
   \<and> \<lfloor>fmul (float_of_int 7) (fl (3 / 10))\<rfloor> = 2
   \<and> studentEndorsements demo_ai_answer_written = Some 7
   \<and> instructorEndorsements demo_ai_answer_written = Some 1
   \<and> instructorEndorsed demo_ai_answer_written = Some ((0 :: int) < 1)
   \<and> totalEndorsements demo_ai_answer_written = Some (7 + 1 + 2)"
proof -
  have "py_int (fmul (float_of_int 7) (fl (3 / 10))) = 2"
    by (simp add: float_steps)
  moreover have "0 \<le> fmul (float_of_int 7) (fl (3 / 10))"
    by (simp add: float_steps)
  ultimately have "\<lfloor>fmul (float_of_int 7) (fl (3 / 10))\<rfloor> = 2"
    by (simp add: py_int_def)
  then show ?thesis
    using eval_ai_loop_demo total_endorsements_formula[OF eval_ai_loop_demo]
    by (simp add: demo_ai_answer_written_def)
qed

end
